theory Spec2Isabelle
  imports Main
begin

section \<open>JavaScript values\<close>

text \<open>
  The components are written in JavaScript, so a prop can hold any value. The values the
  components inspect are modelled by \<open>jsval\<close>; numbers are the integers (\<open>NaN\<close> and
  fractions are outside the model), and \<open>JObject\<close> stands for any object (a React
  element, an Error, a plain object), named by a tag.
\<close>

datatype jsval = JUndefined | JNull | JBool bool | JNum int | JStr string | JObject string

text \<open>The truthiness every \<open>&&\<close>, \<open>||\<close>, \<open>?:\<close> and \<open>Boolean(...)\<close> decides on.\<close>

fun truthy :: "jsval \<Rightarrow> bool" where
  "truthy JUndefined = False"
| "truthy JNull = False"
| "truthy (JBool b) = b"
| "truthy (JNum n) = (n \<noteq> 0)"
| "truthy (JStr s) = (s \<noteq> [])"
| "truthy (JObject t) = True"

text \<open>\<open>typeof v === 'string'\<close>\<close>

fun is_string :: "jsval \<Rightarrow> bool" where
  "is_string (JStr s) = True"
| "is_string v = False"

text \<open>
  A JSX expression slot \<open>{a && b && <X/>}\<close> evaluates either to the element or to the
  first falsy operand, which React then receives as a plain value.
\<close>

datatype 'a jsx = Element 'a | Value jsval

definition js_and :: "jsval \<Rightarrow> 'a jsx \<Rightarrow> 'a jsx" where
  "js_and v e = (if truthy v then e else Value v)"

fun is_element :: "'a jsx \<Rightarrow> bool" where
  "is_element (Element x) = True"
| "is_element (Value v) = False"

text \<open>
  \<open>a || b\<close> on optional strings (\<open>None\<close> is \<open>undefined\<close>): the empty string is falsy.
\<close>

definition js_or :: "string option \<Rightarrow> string option \<Rightarrow> string option" where
  "js_or a b = (case a of None \<Rightarrow> b | Some s \<Rightarrow> if s \<noteq> [] then Some s else b)"

text \<open>An object with string keys, such as the form values or a GraphQL input.\<close>

type_synonym obj = "string \<rightharpoonup> jsval"

section \<open>The field decorator (StyledInputField)\<close>

text \<open>
  The props of \<open>StyledInputField\<close>. \<open>htmlFor\<close>, \<open>name\<close> and \<open>inputType\<close> are
  strings by their PropTypes, \<open>None\<close> when the prop is not given. The styling props
  (\<open>labelFontSize\<close>, \<open>labelFontWeight\<close>, \<open>labelColor\<close>, \<open>labelProps\<close> and the
  props spread on the outer \<open>Box\<close>) only set CSS attributes and are left out.
\<close>

record child_attrs =
  name_attr :: "string option"
  id_attr :: "string option"
  type_attr :: "string option"
  error_attr :: jsval
  success_attr :: jsval
  disabled_attr :: jsval
  required_attr :: jsval

text \<open>\<open>children\<close> is either a render function or an already rendered node.\<close>

datatype 'n children = Function "child_attrs \<Rightarrow> 'n" | Node 'n

record 'n props =
  children :: "'n children"
  label :: jsval
  htmlFor :: "string option"
  name :: "string option"
  error :: jsval
  hint :: jsval
  success :: jsval
  disabled :: jsval
  required :: jsval
  inputType :: "string option"
  hideOptionalLabel :: jsval
  useRequiredLabel :: jsval
  isPrivate :: jsval
  helpText :: jsval

text \<open>
  What is rendered. The label is one of the three branches of the ternary of the source:
  the label inside the \<open>OptionalFieldLabel\<close> message (\<open>{field} (optional)\<close>), the label
  followed by \<open>*\<close>, or the label alone; each carries the slot of the private icon.
\<close>

datatype icon = PrivateIconWithSpace | QuestionMarkIconWithSpace jsval

datatype label_body =
    OptionalFieldLabel jsval "icon jsx"
  | RequiredFieldLabel jsval "icon jsx"
  | PlainFieldLabel jsval "icon jsx"

record label_view =
  label_body :: label_body
  help_slot :: "icon jsx"

record 'n field_view =
  label_section :: "label_view jsx"
  child :: 'n
  error_section :: "jsval jsx"
  hint_section :: "jsval jsx"

definition StyledInputField :: "'n props \<Rightarrow> 'n field_view" where
  "StyledInputField p =
    (let isCheckbox = (inputType p = Some ''checkbox'');
         htmlFor' = js_or (htmlFor p)
           (case name p of
              None \<Rightarrow> None
            | Some n \<Rightarrow> if n \<noteq> [] then Some (''input-'' @ n) else None);
         displayOptionalLabel =
           (if truthy (hideOptionalLabel p) then False else required p = JBool False);
         displayRequiredLabel =
           (if truthy (useRequiredLabel p) then required p = JBool True else False);
         private = js_and (isPrivate p) (Element PrivateIconWithSpace)
     in \<lparr> label_section =
            js_and (label p)
              (Element
                \<lparr> label_body =
                    (if displayOptionalLabel \<and> \<not> isCheckbox
                       then OptionalFieldLabel (label p) private
                     else if displayRequiredLabel
                       then RequiredFieldLabel (label p) private
                     else PlainFieldLabel (label p) private),
                  help_slot =
                    js_and (helpText p) (Element (QuestionMarkIconWithSpace (helpText p))) \<rparr>),
          child =
            (case children p of
               Function f \<Rightarrow>
                 f \<lparr> name_attr = js_or (name p) htmlFor',
                     id_attr = htmlFor',
                     type_attr = inputType p,
                     error_attr = (if truthy (error p) then JBool True else JUndefined),
                     success_attr = success p,
                     disabled_attr = disabled p,
                     required_attr = required p \<rparr>
             | Node n \<Rightarrow> n),
          error_section =
            js_and (error p) (js_and (JBool (is_string (error p))) (Element (error p))),
          hint_section =
            js_and (hint p) (js_and (JBool (\<not> truthy (error p))) (Element (hint p))) \<rparr>)"

text \<open>The qualifier and the marker a rendered label carries.\<close>

fun optional_body :: "label_body \<Rightarrow> bool" where
  "optional_body (OptionalFieldLabel l i) = True"
| "optional_body b = False"

fun required_body :: "label_body \<Rightarrow> bool" where
  "required_body (RequiredFieldLabel l i) = True"
| "required_body b = False"

definition has_optional_qualifier :: "'n field_view \<Rightarrow> bool" where
  "has_optional_qualifier v =
    (case label_section v of Element l \<Rightarrow> optional_body (label_body l) | Value x \<Rightarrow> False)"

definition has_required_marker :: "'n field_view \<Rightarrow> bool" where
  "has_required_marker v =
    (case label_section v of Element l \<Rightarrow> required_body (label_body l) | Value x \<Rightarrow> False)"

text \<open>The props of a field that is given nothing but its children.\<close>

definition only_children :: "'n children \<Rightarrow> 'n props" where
  "only_children c =
    \<lparr> children = c, label = JUndefined, htmlFor = None, name = None, error = JUndefined,
      hint = JUndefined, success = JUndefined, disabled = JUndefined, required = JUndefined,
      inputType = None, hideOptionalLabel = JUndefined, useRequiredLabel = JUndefined,
      isPrivate = JUndefined, helpText = JUndefined \<rparr>"

section \<open>Collaborators: notifications, mutations, the form library, the cache\<close>

text \<open>
  The components call libraries that are not part of these sources: lodash, the form
  library (Formik), the GraphQL client with its cache (Apollo), the toast provider. Each
  is modelled by the documented effect of the calls the components make, and the
  server behind a mutation is a parameter of the handler that calls it.
\<close>

text \<open>What a rejected promise carries.\<close>

datatype exn = Exception string

text \<open>The settled promise of a mutation or of a callback.\<close>

datatype 'a outcome = Resolved 'a | Rejected exn

text \<open>
  A toast as \<open>addToast\<close> receives it. The message is kept as the call that builds it:
  \<open>intl.formatMessage\<close> with its default message and parameters, or
  \<open>i18nGraphqlException\<close> of the caught error.
\<close>

datatype toast_type = SUCCESS | ERROR

datatype message = FormatMessage string "(string \<times> jsval) list" | I18nGraphqlException exn

record toast =
  toast_type :: toast_type
  variant :: "string option"
  message :: message

text \<open>Reading a property: a missing key reads as \<open>undefined\<close>.\<close>

definition jsget :: "obj \<Rightarrow> string \<Rightarrow> jsval" where
  "jsget ob k = (case ob k of None \<Rightarrow> JUndefined | Some v \<Rightarrow> v)"

text \<open>lodash \<open>pick\<close>: the listed keys that the object has.\<close>

definition pick :: "obj \<Rightarrow> string list \<Rightarrow> obj" where
  "pick ob paths = ob |` set paths"

text \<open>
  The state the form library keeps: the current values and the baseline they are
  compared with (\<open>initialValues\<close>, seeded from \<open>data.application\<close>). \<open>dirty\<close> is
  their inequality, \<open>resetForm({ values })\<close> makes the given values both the current
  values and the baseline, and a field change writes one current value.
\<close>

record formik =
  form_values :: obj
  initialValues :: obj

definition dirty :: "formik \<Rightarrow> bool" where
  "dirty f = (form_values f \<noteq> initialValues f)"

definition resetForm :: "obj \<Rightarrow> formik \<Rightarrow> formik" where
  "resetForm nextValues f = \<lparr> form_values = nextValues, initialValues = nextValues \<rparr>"

definition handleChange :: "string \<Rightarrow> jsval \<Rightarrow> formik \<Rightarrow> formik" where
  "handleChange k v f = f \<lparr> form_values := (form_values f)(k \<mapsto> v) \<rparr>"

text \<open>
  The normalised client cache: entities by cache id, each a map from field names to
  stored values (a scalar, a reference to an entity, or a list of references).
\<close>

datatype stored = Scalar jsval | Ref string | Refs "string list"

type_synonym entity = "string \<rightharpoonup> stored"

type_synonym cache = "string \<rightharpoonup> entity"

text \<open>\<open>cache.identify\<close>: \<open>__typename:id\<close>, undefined without them.\<close>

definition identify :: "obj \<Rightarrow> string option" where
  "identify ob =
    (case (ob ''__typename'', ob ''id'') of
       (Some (JStr t), Some (JStr i)) \<Rightarrow> Some (t @ '':'' @ i)
     | _ \<Rightarrow> None)"

text \<open>\<open>cache.evict({ id })\<close> removes the entity; with an undefined id it does nothing.\<close>

definition evict :: "string option \<Rightarrow> cache \<Rightarrow> cache" where
  "evict i c = (case i of None \<Rightarrow> c | Some k \<Rightarrow> c(k := None))"

text \<open>
  \<open>cache.modify({ id, fields: { field: (_, { DELETE }) => DELETE } })\<close> removes the
  field from the entity, when the entity is cached.
\<close>

definition modify_DELETE :: "string option \<Rightarrow> string \<Rightarrow> cache \<Rightarrow> cache" where
  "modify_DELETE i field c =
    (case i of
       None \<Rightarrow> c
     | Some k \<Rightarrow> (case c k of None \<Rightarrow> c | Some e \<Rightarrow> c(k \<mapsto> e(field := None))))"


text \<open>
  Everything the handlers act on outside their component: the cache, the toasts raised,
  the inputs of the update mutations sent and the calls of the post-delete callback.
\<close>

record world =
  cache :: cache
  toasts :: "toast list"
  update_requests :: "obj list"
  onDelete_calls :: "obj list"

definition addToast :: "toast \<Rightarrow> world \<Rightarrow> world" where
  "addToast t w = w \<lparr> toasts := toasts w @ [t] \<rparr>"

section \<open>The settings screen (OAuthApplicationSettings)\<close>

subsection \<open>The obfuscated client secret\<close>

text \<open>
  \<open>ObfuscatedClientSecret\<close> at the state \<open>show\<close>: the slot of the secret, the label of
  the button and the state its \<open>onClick\<close> sets.
\<close>

record secret_view =
  unhidden_secret :: "jsval jsx"
  button_label :: string
  onClick :: bool

definition ObfuscatedClientSecret :: "jsval \<Rightarrow> bool \<Rightarrow> secret_view" where
  "ObfuscatedClientSecret secret show =
    \<lparr> unhidden_secret = js_and (JBool show) (Element secret),
      button_label = (if show then ''Hide'' else ''Show''),
      onClick = (\<not> show) \<rparr>"

text \<open>The state after \<open>n\<close> presses of the button, from \<open>useState(false)\<close>.\<close>

fun show_after :: "jsval \<Rightarrow> nat \<Rightarrow> bool" where
  "show_after secret 0 = False"
| "show_after secret (Suc n) = onClick (ObfuscatedClientSecret secret (show_after secret n))"

subsection \<open>The state of the screen\<close>

text \<open>
  The query is loading, has failed, or has loaded \<open>data.application\<close>; the form exists
  only in the last case, seeded with the application.
\<close>

datatype screen = Loading | Failed exn | Ready obj formik

record settings =
  screen :: screen
  showDeleteModal :: bool
  world :: world

subsection \<open>Submitting the form\<close>

text \<open>
  The input of the update mutation, as \<open>onSubmit\<close> builds it from
  \<open>data.application\<close> and the submitted values.
\<close>

definition applicationInput :: "obj \<Rightarrow> obj \<Rightarrow> obj" where
  "applicationInput application vals =
    (let filteredValues = pick vals [''name'', ''description'', ''redirectUri'']
     in [''id'' \<mapsto> jsget application ''id''] ++ filteredValues)"

text \<open>
  The \<open>try\<close> block of \<open>onSubmit\<close>, on the state of the form and the world:
  \<open>Inl\<close> is the error thrown together with the state reached when it was thrown. The
  mutation input is recorded as sent before the mutation settles.
\<close>

definition onSubmit_try ::
  "(obj \<Rightarrow> obj outcome) \<Rightarrow> obj \<Rightarrow> obj \<Rightarrow> formik \<Rightarrow> world \<Rightarrow>
     exn \<times> formik \<times> world + formik \<times> world"
where
  \<open>onSubmit_try updateApplication application vals f w =
    (let w1 = w \<lparr> update_requests := update_requests w @ [applicationInput application vals] \<rparr>
     in case updateApplication (applicationInput application vals) of
          Rejected e \<Rightarrow> Inl (e, f, w1)
        | Resolved result \<Rightarrow>
            Inr (resetForm result f,
                 addToast
                   \<lparr> toast_type = SUCCESS, variant = None,
                     message = FormatMessage ''Application "{name}" updated''
                                 [(''name'', jsget result ''name'')] \<rparr>
                   w1))\<close>

text \<open>
  \<open>onSubmit\<close> with its \<open>catch\<close>: the promise it returns, \<open>Inl\<close> when rejected.
\<close>

definition onSubmit ::
  "(obj \<Rightarrow> obj outcome) \<Rightarrow> obj \<Rightarrow> obj \<Rightarrow> formik \<Rightarrow> world \<Rightarrow> exn + formik \<times> world"
where
  "onSubmit updateApplication application vals f w =
    (case onSubmit_try updateApplication application vals f w of
       Inr st' \<Rightarrow> Inr st'
     | Inl (e, f', w') \<Rightarrow>
         Inr (f', addToast
                    \<lparr> toast_type = ERROR, variant = Some ''light'',
                      message = I18nGraphqlException e \<rparr>
                    w'))"

subsection \<open>What the screen renders\<close>

record ready_view =
  client_id :: jsval
  client_secret :: jsval
  hasUnsavedChanges :: bool
  name_input :: jsval
  description_input :: jsval
  redirectUri_input :: jsval
  submit_disabled :: bool
  delete_modal :: "obj jsx"

datatype view = LoadingPlaceholder | MessageBoxGraphqlError exn | SettingsForm ready_view

definition render :: "settings \<Rightarrow> view" where
  "render st =
    (case screen st of
       Loading \<Rightarrow> LoadingPlaceholder
     | Failed e \<Rightarrow> MessageBoxGraphqlError e
     | Ready application f \<Rightarrow>
         SettingsForm
           \<lparr> client_id = jsget application ''clientId'',
             client_secret = jsget application ''clientSecret'',
             hasUnsavedChanges = (dirty f \<and> \<not> showDeleteModal st),
             name_input = jsget (form_values f) ''name'',
             description_input = jsget (form_values f) ''description'',
             redirectUri_input = jsget (form_values f) ''redirectUri'',
             submit_disabled = (\<not> dirty f),
             delete_modal = js_and (JBool (showDeleteModal st)) (Element application) \<rparr>)"

text \<open>
  The unsaved-changes guard is the \<open>WarnIfUnsavedChanges\<close> the form renders (the
  component itself is not part of these sources): it is active when it is rendered with
  \<open>hasUnsavedChanges\<close> true.
\<close>

fun guard_active :: "view \<Rightarrow> bool" where
  "guard_active (SettingsForm v) = hasUnsavedChanges v"
| "guard_active v = False"

fun form_dirty :: "settings \<Rightarrow> bool" where
  "form_dirty st = (case screen st of Ready application f \<Rightarrow> dirty f | _ \<Rightarrow> False)"

section \<open>The delete confirmation (DeleteOAuthApplicationModal)\<close>

text \<open>\<open>data.deleteApplication\<close> of the delete mutation.\<close>

record deleteApplication_data =
  deleted_id :: jsval
  account :: obj

text \<open>
  The \<open>update\<close> option of the mutation. \<open>gc\<close> is the cache's garbage collector, a
  parameter.
\<close>

definition update :: "(cache \<Rightarrow> cache) \<Rightarrow> obj \<Rightarrow> deleteApplication_data \<Rightarrow> cache \<Rightarrow> cache" where
  "update gc application data c =
    (let c1 = evict (identify application) c;
         c2 = gc c1;
         accountCacheId = identify (account data)
     in modify_DELETE accountCacheId ''oAuthApplications'' c2)"

text \<open>
  What \<open>continueHandler\<close> returns: the terminate value after a successful run,
  \<open>undefined\<close> after the \<open>catch\<close>. The handler never calls \<open>onClose\<close>: closing the
  dialog is left to the parent, whose \<open>showDeleteModal\<close> the handler cannot change.
\<close>

datatype handler_result = CONFIRMATION_MODAL_TERMINATE | Undefined

text \<open>
  The \<open>try\<close> block of \<open>continueHandler\<close>. The mutation runs \<open>update\<close> on the cache
  when it resolves; \<open>onDelete\<close> is the caller's callback, awaited inside the block.
\<close>

definition continueHandler_try ::
  "(jsval \<Rightarrow> deleteApplication_data outcome) \<Rightarrow> (cache \<Rightarrow> cache) \<Rightarrow> (obj \<Rightarrow> unit outcome) \<Rightarrow>
     obj \<Rightarrow> world \<Rightarrow> exn \<times> world + handler_result \<times> world"
where
  "continueHandler_try deleteApplication gc onDelete application w =
    (case deleteApplication (jsget application ''id'') of
       Rejected e \<Rightarrow> Inl (e, w)
     | Resolved data \<Rightarrow>
         (let w1 = w \<lparr> cache := update gc application data (cache w) \<rparr>;
              w2 = w1 \<lparr> onDelete_calls := onDelete_calls w1 @ [application] \<rparr>
          in case onDelete application of
               Rejected e \<Rightarrow> Inl (e, w2)
             | Resolved u \<Rightarrow>
                 Inr (CONFIRMATION_MODAL_TERMINATE,
                      addToast
                        \<lparr> toast_type = SUCCESS, variant = None,
                          message = FormatMessage ''Application {name} deleted''
                                      [(''name'', jsget application ''name'')] \<rparr>
                        w2)))"

definition continueHandler ::
  "(jsval \<Rightarrow> deleteApplication_data outcome) \<Rightarrow> (cache \<Rightarrow> cache) \<Rightarrow> (obj \<Rightarrow> unit outcome) \<Rightarrow>
     obj \<Rightarrow> world \<Rightarrow> exn + handler_result \<times> world"
where
  "continueHandler deleteApplication gc onDelete application w =
    (case continueHandler_try deleteApplication gc onDelete application w of
       Inr r \<Rightarrow> Inr r
     | Inl (e, w') \<Rightarrow>
         Inr (Undefined,
              addToast
                \<lparr> toast_type = ERROR, variant = Some ''light'',
                  message = I18nGraphqlException e \<rparr>
                w'))"


section \<open>The states the screen reaches\<close>

text \<open>
  The screen starts loading; the query fails or loads the application, which seeds the
  form. From then on the user edits fields, submits the form, opens the delete
  confirmation, closes it, or confirms the deletion.
\<close>

definition initial :: "world \<Rightarrow> settings" where
  "initial w = \<lparr> screen = Loading, showDeleteModal = False, world = w \<rparr>"

inductive reachable :: "settings \<Rightarrow> bool" where
  start: "reachable (initial w)"
| query_failed:
    "reachable st \<Longrightarrow> screen st = Loading \<Longrightarrow> reachable (st \<lparr> screen := Failed e \<rparr>)"
| query_loaded:
    "reachable st \<Longrightarrow> screen st = Loading \<Longrightarrow>
     reachable (st \<lparr> screen := Ready application
                                \<lparr> form_values = application, initialValues = application \<rparr> \<rparr>)"
| change:
    "reachable st \<Longrightarrow> screen st = Ready application f \<Longrightarrow>
     reachable (st \<lparr> screen := Ready application (handleChange k v f) \<rparr>)"
| submit:
    "reachable st \<Longrightarrow> screen st = Ready application f \<Longrightarrow>
     onSubmit updateApplication application (form_values f) f (world st) = Inr (f', w') \<Longrightarrow>
     reachable (st \<lparr> screen := Ready application f', world := w' \<rparr>)"
| press_delete:
    "reachable st \<Longrightarrow> screen st = Ready application f \<Longrightarrow>
     reachable (st \<lparr> showDeleteModal := True \<rparr>)"
| close_modal:
    "reachable st \<Longrightarrow> showDeleteModal st \<Longrightarrow> reachable (st \<lparr> showDeleteModal := False \<rparr>)"
| confirm_delete:
    "reachable st \<Longrightarrow> screen st = Ready application f \<Longrightarrow> showDeleteModal st \<Longrightarrow>
     continueHandler deleteApplication gc onDelete application (world st) = Inr (r, w') \<Longrightarrow>
     reachable (st \<lparr> world := w' \<rparr>)"

section \<open>Example data\<close>

text \<open>
  An application as the query returns it, a cache that holds it and lists it under its
  account, and the answer of a delete mutation that succeeds.
\<close>

definition example_application :: obj where
  "example_application =
    [''__typename'' \<mapsto> JStr ''Application'', ''id'' \<mapsto> JStr ''a1'',
     ''name'' \<mapsto> JStr ''Old Name'', ''description'' \<mapsto> JNull,
     ''redirectUri'' \<mapsto> JStr ''https://example.com/callback'',
     ''clientId'' \<mapsto> JStr ''c1'', ''clientSecret'' \<mapsto> JStr ''s1'']"

definition example_world :: world where
  "example_world =
    \<lparr> cache =
        [''Application:a1'' \<mapsto> [''name'' \<mapsto> Scalar (JStr ''Old Name'')],
         ''Account:acc'' \<mapsto> [''oAuthApplications'' \<mapsto> Refs [''Application:a1'']]],
      toasts = [], update_requests = [], onDelete_calls = [] \<rparr>"


text \<open>
  The name edited on the form, the name blanked on the form, a server that refuses an
  empty name and otherwise answers with the updated application, a server that deletes the example application
  only, a collector that finds nothing to collect, and two post-delete callbacks.
\<close>

definition example_edit :: obj where
  "example_edit = example_application(''name'' \<mapsto> JStr ''New Name'')"

definition example_form :: formik where
  "example_form = \<lparr> form_values = example_edit, initialValues = example_application \<rparr>"

definition example_blank :: obj where
  "example_blank = example_application(''name'' \<mapsto> JStr [])"

definition example_blank_form :: formik where
  "example_blank_form = \<lparr> form_values = example_blank, initialValues = example_application \<rparr>"

text \<open>The screen while the edited form is open, and with the delete confirmation open.\<close>

definition example_editing :: settings where
  "example_editing =
    \<lparr> screen = Ready example_application example_form, showDeleteModal = False,
      world = example_world \<rparr>"

definition example_confirming :: settings where
  "example_confirming = example_editing \<lparr> showDeleteModal := True \<rparr>"

definition example_updateApplication :: "obj \<Rightarrow> obj outcome" where
  "example_updateApplication inp =
    (if inp ''name'' = Some (JStr []) then Rejected (Exception ''Name is required'')
     else Resolved (example_application ++ inp))"

definition example_updated :: obj where
  "example_updated = example_application ++ applicationInput example_application example_edit"






section \<open>Properties of the field decorator\<close>

text \<open>
  Claim C5, as stated: whenever \<open>required\<close> is \<open>false\<close> and \<open>hideOptionalLabel\<close> is
  not set, the rendered label carries the "(optional)" qualifier. It fails on a checkbox:
  the source renders the qualifier only when \<open>!isCheckbox\<close>. The field below has a
  label, \<open>required = false\<close>, no suppression and the input type \<open>checkbox\<close>, and its
  label has no qualifier.
\<close>

theorem checkbox_label_not_optional:
  "required ((only_children (Node ()))
       \<lparr> label := JStr ''Accept'', required := JBool False, inputType := Some ''checkbox'' \<rparr>)
     = JBool False
   \<and> \<not> truthy (hideOptionalLabel ((only_children (Node ()))
       \<lparr> label := JStr ''Accept'', required := JBool False, inputType := Some ''checkbox'' \<rparr>))
   \<and> \<not> has_optional_qualifier (StyledInputField ((only_children (Node ()))
       \<lparr> label := JStr ''Accept'', required := JBool False, inputType := Some ''checkbox'' \<rparr>))"
  by (simp add: only_children_def StyledInputField_def has_optional_qualifier_def js_and_def
      Let_def)

text \<open>
  Claim C5, amended: for every configuration with a label, if \<open>required\<close> is \<open>false\<close>,
  \<open>hideOptionalLabel\<close> is not set and the input is not a checkbox, the label carries
  the "(optional)" qualifier; if \<open>required\<close> is \<open>true\<close> and \<open>useRequiredLabel\<close> is
  set, it carries the required marker; and no configuration renders both.
\<close>

theorem label_qualifier_and_marker:
  assumes "truthy (label p)"
  shows "(required p = JBool False \<and> \<not> truthy (hideOptionalLabel p)
            \<and> inputType p \<noteq> Some ''checkbox''
            \<longrightarrow> has_optional_qualifier (StyledInputField p))
       \<and> (required p = JBool True \<and> truthy (useRequiredLabel p)
            \<longrightarrow> has_required_marker (StyledInputField p))
       \<and> \<not> (has_optional_qualifier (StyledInputField p)
            \<and> has_required_marker (StyledInputField p))"
  using assms
  by (simp add: StyledInputField_def has_optional_qualifier_def has_required_marker_def
      js_and_def Let_def)

theorem label_qualifier_and_marker_witness:
  "has_optional_qualifier (StyledInputField ((only_children (Node ()))
       \<lparr> label := JStr ''Website'', required := JBool False \<rparr>))
   \<and> has_required_marker (StyledInputField ((only_children (Node ()))
       \<lparr> label := JStr ''Name'', required := JBool True, useRequiredLabel := JBool True \<rparr>))"
  using
    label_qualifier_and_marker
      [of "(only_children (Node ())) \<lparr> label := JStr ''Website'', required := JBool False \<rparr>"]
    label_qualifier_and_marker
      [of "(only_children (Node ()))
             \<lparr> label := JStr ''Name'', required := JBool True, useRequiredLabel := JBool True \<rparr>"]
  by (simp add: only_children_def)

text \<open>
  Claim C6, as stated: when the error is not a non-empty string and a hint exists, the
  hint is rendered. It fails for an error that is truthy but not a string: the hint is
  rendered under \<open>hint && !error\<close>. With the error \<open>true\<close> and the hint \<open>''h''\<close> no
  hint is rendered.
\<close>

theorem boolean_error_hides_hint:
  "\<not> (is_string (error ((only_children (Node ())) \<lparr> error := JBool True, hint := JStr ''h'' \<rparr>))
        \<and> truthy (error ((only_children (Node ())) \<lparr> error := JBool True, hint := JStr ''h'' \<rparr>)))
   \<and> truthy (hint ((only_children (Node ())) \<lparr> error := JBool True, hint := JStr ''h'' \<rparr>))
   \<and> \<not> is_element (hint_section (StyledInputField
          ((only_children (Node ())) \<lparr> error := JBool True, hint := JStr ''h'' \<rparr>)))"
  by (simp add: only_children_def StyledInputField_def js_and_def Let_def)

text \<open>
  Claim C6, amended: if the error is a non-empty string, it is rendered below the field
  and the hint is not; if the error is falsy and a hint exists, the hint is rendered.
\<close>

theorem error_text_or_hint:
  "(is_string (error p) \<and> truthy (error p)
      \<longrightarrow> error_section (StyledInputField p) = Element (error p)
          \<and> \<not> is_element (hint_section (StyledInputField p)))
   \<and> (\<not> truthy (error p) \<and> truthy (hint p)
      \<longrightarrow> hint_section (StyledInputField p) = Element (hint p))"
  by (simp add: StyledInputField_def js_and_def Let_def)

theorem error_text_or_hint_witness:
  "error_section (StyledInputField
      ((only_children (Node ())) \<lparr> error := JStr ''Required'', hint := JStr ''h'' \<rparr>))
     = Element (JStr ''Required'')
   \<and> \<not> is_element (hint_section (StyledInputField
      ((only_children (Node ())) \<lparr> error := JStr ''Required'', hint := JStr ''h'' \<rparr>)))
   \<and> hint_section (StyledInputField ((only_children (Node ())) \<lparr> hint := JStr ''h'' \<rparr>))
     = Element (JStr ''h'')"
  using
    error_text_or_hint
      [of "(only_children (Node ())) \<lparr> error := JStr ''Required'', hint := JStr ''h'' \<rparr>"]
    error_text_or_hint [of "(only_children (Node ())) \<lparr> hint := JStr ''h'' \<rparr>"]
  by (simp add: only_children_def)

text \<open>
  Claim C9: the decorator renders without a label, the label section being left out
  (no step of the source can throw on a missing label, so the model has no error to
  return); and a render function receives \<open>id = htmlFor || (name ? `input-${name}` :
  undefined)\<close> and \<open>name = name || id\<close>, so the missing one of the two is derived from
  the other and \<open>name\<close> is defined exactly when \<open>id\<close> is.
\<close>

theorem missing_label_and_identifier_fallback:
  "(\<not> truthy (label p) \<longrightarrow> label_section (StyledInputField p) = Value (label p))
   \<and> (children p = Function f \<longrightarrow>
        (\<exists>a. child (StyledInputField p) = f a
           \<and> id_attr a = js_or (htmlFor p)
                 (case name p of None \<Rightarrow> None
                  | Some n \<Rightarrow> if n \<noteq> [] then Some (''input-'' @ n) else None)
           \<and> name_attr a = js_or (name p) (id_attr a)
           \<and> (name_attr a = None) = (id_attr a = None)))"
proof (intro conjI impI)
  assume "\<not> truthy (label p)"
  then show "label_section (StyledInputField p) = Value (label p)"
    by (simp add: StyledInputField_def js_and_def Let_def)
next
  assume "children p = Function f"
  then show "\<exists>a. child (StyledInputField p) = f a
           \<and> id_attr a = js_or (htmlFor p)
                 (case name p of None \<Rightarrow> None
                  | Some n \<Rightarrow> if n \<noteq> [] then Some (''input-'' @ n) else None)
           \<and> name_attr a = js_or (name p) (id_attr a)
           \<and> (name_attr a = None) = (id_attr a = None)"
    by (auto simp add: StyledInputField_def Let_def js_or_def split: option.splits)
qed

theorem missing_label_and_identifier_fallback_witness:
  "label_section (StyledInputField
      ((only_children (Function (\<lambda>a. a))) \<lparr> name := Some ''email'' \<rparr>)) = Value JUndefined
   \<and> id_attr (child (StyledInputField
      ((only_children (Function (\<lambda>a. a))) \<lparr> name := Some ''email'' \<rparr>))) = Some ''input-email''
   \<and> name_attr (child (StyledInputField
      ((only_children (Function (\<lambda>a. a))) \<lparr> name := Some ''email'' \<rparr>))) = Some ''email''
   \<and> id_attr (child (StyledInputField
      ((only_children (Function (\<lambda>a. a))) \<lparr> htmlFor := Some ''email'' \<rparr>))) = Some ''email''
   \<and> name_attr (child (StyledInputField
      ((only_children (Function (\<lambda>a. a))) \<lparr> htmlFor := Some ''email'' \<rparr>))) = Some ''email''"
  using
    missing_label_and_identifier_fallback
      [of "(only_children (Function (\<lambda>a. a))) \<lparr> name := Some ''email'' \<rparr>" "\<lambda>a. a"]
    missing_label_and_identifier_fallback
      [of "(only_children (Function (\<lambda>a. a))) \<lparr> htmlFor := Some ''email'' \<rparr>" "\<lambda>a. a"]
  by (auto simp add: only_children_def js_or_def)

text \<open>
  Claim C10: for every truthy error that is not a string, neither the error block nor
  the hint is rendered (the error slot holds \<open>false\<close>, the value of
  \<open>typeof error === 'string'\<close>), and a render function still receives \<open>error = true\<close>.
\<close>

theorem non_string_error_renders_no_text:
  assumes "truthy (error p)" and "\<not> is_string (error p)"
  shows "error_section (StyledInputField p) = Value (JBool False)
       \<and> \<not> is_element (hint_section (StyledInputField p))
       \<and> (\<forall>f. children p = Function f \<longrightarrow>
             (\<exists>a. child (StyledInputField p) = f a \<and> error_attr a = JBool True))"
  using assms
  by (auto simp add: StyledInputField_def js_and_def Let_def)

theorem non_string_error_renders_no_text_witness:
  "error_section (StyledInputField
      ((only_children (Function (\<lambda>a. a))) \<lparr> error := JBool True, hint := JStr ''h'' \<rparr>))
     = Value (JBool False)
   \<and> \<not> is_element (hint_section (StyledInputField
      ((only_children (Function (\<lambda>a. a))) \<lparr> error := JBool True, hint := JStr ''h'' \<rparr>)))
   \<and> error_attr (child (StyledInputField
      ((only_children (Function (\<lambda>a. a))) \<lparr> error := JBool True, hint := JStr ''h'' \<rparr>)))
     = JBool True"
  using
    non_string_error_renders_no_text
      [of "(only_children (Function (\<lambda>a. a))) \<lparr> error := JBool True, hint := JStr ''h'' \<rparr>"]
  by (auto simp add: only_children_def)

section \<open>Properties of the settings screen\<close>

lemma show_after_odd: "show_after secret n = odd n"
  by (induction n) (simp_all add: ObfuscatedClientSecret_def)

text \<open>
  Claim C7: after \<open>n\<close> presses of the reveal button the secret is displayed exactly
  when \<open>n\<close> is odd, and what is displayed then is the secret the component was given.
\<close>

theorem secret_shown_iff_odd_presses:
  "is_element (unhidden_secret (ObfuscatedClientSecret secret (show_after secret n))) = odd n
   \<and> unhidden_secret (ObfuscatedClientSecret secret (show_after secret n))
       = (if odd n then Element secret else Value (JBool False))"
  by (simp add: show_after_odd ObfuscatedClientSecret_def js_and_def)

theorem secret_shown_iff_odd_presses_witness:
  "unhidden_secret (ObfuscatedClientSecret (JStr ''s1'') (show_after (JStr ''s1'') 3))
     = Element (JStr ''s1'')
   \<and> \<not> is_element
        (unhidden_secret (ObfuscatedClientSecret (JStr ''s1'') (show_after (JStr ''s1'') 2)))"
  using secret_shown_iff_odd_presses [of "JStr ''s1''" 3]
        secret_shown_iff_odd_presses [of "JStr ''s1''" 2]
  by simp

lemma onSubmit_resolved:
  "updateApplication (applicationInput application vals) = Resolved result \<Longrightarrow>
   onSubmit updateApplication application vals f w =
     Inr (resetForm result f,
          addToast
            \<lparr> toast_type = SUCCESS, variant = None,
              message = FormatMessage
                          (''Application '' @ [CHR 0x22] @ ''{name}'' @ [CHR 0x22] @ '' updated'')
                          [(''name'', jsget result ''name'')] \<rparr>
            (w \<lparr> update_requests := update_requests w @ [applicationInput application vals] \<rparr>))"
  by (simp add: onSubmit_def onSubmit_try_def Let_def)

lemma onSubmit_rejected:
  "updateApplication (applicationInput application vals) = Rejected e \<Longrightarrow>
   onSubmit updateApplication application vals f w =
     Inr (f,
          addToast
            \<lparr> toast_type = ERROR, variant = Some ''light'', message = I18nGraphqlException e \<rparr>
            (w \<lparr> update_requests := update_requests w @ [applicationInput application vals] \<rparr>))"
  by (simp add: onSubmit_def onSubmit_try_def Let_def)

lemma applicationInput_fields:
  "applicationInput application vals k =
     (if k = ''id'' then Some (jsget application ''id'')
      else if k \<in> {''name'', ''description'', ''redirectUri''} then vals k
      else None)"
  by (auto simp add: applicationInput_def pick_def map_add_def restrict_map_def
      split: option.splits)

lemma example_edit_dirty: "dirty example_form"
proof -
  have "example_edit ''name'' \<noteq> example_application ''name''"
    by (simp add: example_edit_def example_application_def)
  then have "example_edit \<noteq> example_application"
    by auto
  then show ?thesis
    by (simp add: dirty_def example_form_def)
qed

lemma example_blank_dirty: "dirty example_blank_form"
proof -
  have "example_blank ''name'' \<noteq> example_application ''name''"
    by (simp add: example_blank_def example_application_def)
  then have "example_blank \<noteq> example_application"
    by auto
  then show ?thesis
    by (simp add: dirty_def example_blank_form_def)
qed

lemma example_update_resolves:
  "example_updateApplication (applicationInput example_application example_edit)
     = Resolved example_updated"
  by (simp add: example_updateApplication_def applicationInput_fields example_edit_def
      example_updated_def)

lemma example_update_rejects:
  "example_updateApplication (applicationInput example_application example_blank)
     = Rejected (Exception ''Name is required'')"
  by (simp add: example_updateApplication_def applicationInput_fields example_blank_def)

text \<open>
  Claim C1: when the update mutation resolves with \<open>result\<close>, the submit handler
  resolves, the baseline and the current values of the form are \<open>result\<close>, the form is
  not dirty, the name field shows the name of \<open>result\<close>, and exactly one toast is
  added, a success toast.
\<close>

theorem update_success_resets_baseline:
  assumes "updateApplication (applicationInput application vals) = Resolved result"
  shows "\<exists>f' w' t v.
           onSubmit updateApplication application vals f w = Inr (f', w')
         \<and> initialValues f' = result \<and> form_values f' = result \<and> \<not> dirty f'
         \<and> render \<lparr> screen = Ready application f', showDeleteModal = m, world = w' \<rparr>
             = SettingsForm v
         \<and> name_input v = jsget result ''name''
         \<and> toasts w' = toasts w @ [t] \<and> toast_type t = SUCCESS"
  using assms onSubmit_resolved [of updateApplication application vals result f w]
  by (simp add: resetForm_def dirty_def addToast_def render_def)

theorem update_success_resets_baseline_witness:
  "example_updateApplication (applicationInput example_application example_edit)
     = Resolved example_updated
   \<and> jsget example_updated ''name'' = JStr ''New Name''
   \<and> (\<exists>f' w' t v.
         onSubmit example_updateApplication example_application example_edit
           example_form example_world = Inr (f', w')
       \<and> initialValues f' = example_updated \<and> form_values f' = example_updated
       \<and> \<not> dirty f'
       \<and> render \<lparr> screen = Ready example_application f', showDeleteModal = False, world = w' \<rparr>
           = SettingsForm v
       \<and> name_input v = jsget example_updated ''name''
       \<and> toasts w' = toasts example_world @ [t] \<and> toast_type t = SUCCESS)"
  (is "?resolves \<and> ?name \<and> ?after")
proof (intro conjI)
  show ?resolves
    by (rule example_update_resolves)
  show ?name
    by (simp add: jsget_def map_add_def applicationInput_fields example_edit_def
        example_updated_def)
  show ?after
    using example_update_resolves
    by (rule update_success_resets_baseline
          [of example_updateApplication example_application example_edit example_updated])
qed

text \<open>
  Claim C2: when the update mutation rejects and the form is dirty, the submit handler
  still resolves (the error is caught), the baseline and the current values of the form
  are unchanged, the form is still dirty, the name field shows what it showed, and
  exactly one toast is added, the error toast of the caught error.
\<close>

theorem update_failure_keeps_form:
  assumes "updateApplication (applicationInput application vals) = Rejected e"
    and "dirty f"
  shows "\<exists>f' w' v.
           onSubmit updateApplication application vals f w = Inr (f', w')
         \<and> initialValues f' = initialValues f \<and> form_values f' = form_values f \<and> dirty f'
         \<and> render \<lparr> screen = Ready application f', showDeleteModal = m, world = w' \<rparr>
             = SettingsForm v
         \<and> name_input v = jsget (form_values f) ''name''
         \<and> toasts w' = toasts w @ [\<lparr> toast_type = ERROR, variant = Some ''light'',
                                      message = I18nGraphqlException e \<rparr>]"
  using assms onSubmit_rejected [of updateApplication application vals e f w]
  by (simp add: addToast_def render_def)

theorem update_failure_keeps_form_witness:
  "example_updateApplication (applicationInput example_application example_blank)
     = Rejected (Exception ''Name is required'')
   \<and> dirty example_blank_form
   \<and> (\<exists>f' w' v.
         onSubmit example_updateApplication example_application example_blank
           example_blank_form example_world = Inr (f', w')
       \<and> initialValues f' = initialValues example_blank_form
       \<and> form_values f' = form_values example_blank_form
       \<and> dirty f'
       \<and> render \<lparr> screen = Ready example_application f', showDeleteModal = False, world = w' \<rparr>
           = SettingsForm v
       \<and> name_input v = jsget (form_values example_blank_form) ''name''
       \<and> toasts w' = toasts example_world @
           [\<lparr> toast_type = ERROR, variant = Some ''light'',
              message = I18nGraphqlException (Exception ''Name is required'') \<rparr>])"
  (is "?rejects \<and> ?dirty \<and> ?after")
proof (intro conjI)
  show ?rejects
    by (rule example_update_rejects)
  show ?dirty
    by (rule example_blank_dirty)
  show ?after
    using example_update_rejects example_blank_dirty
    by (rule update_failure_keeps_form
          [of example_updateApplication example_application example_blank
              "Exception ''Name is required''"])
qed

text \<open>
  Claim C8: whatever the submitted values and whatever the server answers, the submit
  handler sends exactly one update mutation, and its input holds \<open>id\<close>, the id of
  \<open>data.application\<close>, the fields \<open>name\<close>, \<open>description\<close> and \<open>redirectUri\<close> as
  they are in the submitted values, and no other key: neither \<open>clientId\<close> nor
  \<open>clientSecret\<close> nor any other field of the values.
\<close>

theorem update_input_fields:
  "\<exists>f' w' inp.
      onSubmit updateApplication application vals f w = Inr (f', w')
    \<and> update_requests w' = update_requests w @ [inp]
    \<and> inp ''id'' = Some (jsget application ''id'')
    \<and> inp ''name'' = vals ''name''
    \<and> inp ''description'' = vals ''description''
    \<and> inp ''redirectUri'' = vals ''redirectUri''
    \<and> inp ''clientId'' = None \<and> inp ''clientSecret'' = None
    \<and> (\<forall>k. k \<notin> {''id'', ''name'', ''description'', ''redirectUri''} \<longrightarrow> inp k = None)"
proof (cases "updateApplication (applicationInput application vals)")
  case (Resolved result)
  show ?thesis
    using Resolved onSubmit_resolved [of updateApplication application vals result f w]
    by (simp add: addToast_def applicationInput_fields)
next
  case (Rejected e)
  show ?thesis
    using Rejected onSubmit_rejected [of updateApplication application vals e f w]
    by (simp add: addToast_def applicationInput_fields)
qed

theorem update_input_fields_witness:
  "example_edit ''clientSecret'' = Some (JStr ''s1'')
   \<and> example_edit ''name'' = Some (JStr ''New Name'')
   \<and> jsget example_application ''id'' = JStr ''a1''
   \<and> (\<exists>f' w' inp.
        onSubmit example_updateApplication example_application example_edit
          example_form example_world = Inr (f', w')
      \<and> update_requests w' = update_requests example_world @ [inp]
      \<and> inp ''id'' = Some (jsget example_application ''id'')
      \<and> inp ''name'' = example_edit ''name''
      \<and> inp ''description'' = example_edit ''description''
      \<and> inp ''redirectUri'' = example_edit ''redirectUri''
      \<and> inp ''clientId'' = None \<and> inp ''clientSecret'' = None
      \<and> (\<forall>k. k \<notin> {''id'', ''name'', ''description'', ''redirectUri''} \<longrightarrow> inp k = None))"
  (is "?secret \<and> ?name \<and> ?id \<and> ?sent")
proof (intro conjI)
  show ?secret
    by (simp add: example_edit_def example_application_def)
  show ?name
    by (simp add: example_edit_def)
  show ?id
    by (simp add: jsget_def example_application_def)
  show ?sent
    by (rule update_input_fields)
qed

lemma guard_active_render:
  "guard_active (render st) = (form_dirty st \<and> \<not> showDeleteModal st)"
  by (simp add: render_def split: screen.splits)

lemma example_reachable: "reachable example_editing"
proof -
  let ?f0 = "\<lparr> form_values = example_application, initialValues = example_application \<rparr>"
  have "reachable (initial example_world)"
    by (rule reachable.start)
  then have "reachable ((initial example_world) \<lparr> screen := Ready example_application ?f0 \<rparr>)"
    by (rule reachable.query_loaded) (simp add: initial_def)
  then have "reachable ((initial example_world)
               \<lparr> screen := Ready example_application ?f0 \<rparr>
               \<lparr> screen := Ready example_application
                             (handleChange ''name'' (JStr ''New Name'') ?f0) \<rparr>)"
    by (rule reachable.change) simp
  then show ?thesis
    by (simp add: initial_def handleChange_def example_edit_def example_form_def
        example_editing_def)
qed

lemma example_reachable_confirming: "reachable example_confirming"
  unfolding example_confirming_def
  using example_reachable
  by (rule reachable.press_delete) (simp add: example_editing_def)

text \<open>
  Claim C4: in every state the screen reaches, the unsaved-changes guard is active
  exactly when the form is dirty and the delete confirmation is closed. (Before the
  application has loaded there is no form: nothing is dirty and no guard is rendered.)
\<close>

theorem guard_iff_dirty_and_modal_closed:
  assumes "reachable st"
  shows "guard_active (render st) = (form_dirty st \<and> \<not> showDeleteModal st)"
  by (rule guard_active_render)

theorem guard_iff_dirty_and_modal_closed_witness:
  "reachable example_editing \<and> form_dirty example_editing
   \<and> \<not> showDeleteModal example_editing \<and> guard_active (render example_editing)
   \<and> reachable example_confirming \<and> form_dirty example_confirming
   \<and> showDeleteModal example_confirming \<and> \<not> guard_active (render example_confirming)"
proof -
  have d: "form_dirty example_editing" "form_dirty example_confirming"
    using example_edit_dirty
    by (simp_all add: example_editing_def example_confirming_def)
  have m: "\<not> showDeleteModal example_editing" "showDeleteModal example_confirming"
    by (simp_all add: example_editing_def example_confirming_def)
  show ?thesis
    using d m example_reachable example_reachable_confirming
      guard_iff_dirty_and_modal_closed [OF example_reachable]
      guard_iff_dirty_and_modal_closed [OF example_reachable_confirming]
    by simp
qed

section \<open>Properties of the delete confirmation\<close>





















end
